theory Spec2Isabelle
  imports Complex_Main "HOL-Library.Log_Nat"
begin

section \<open>Python values\<close>

text \<open>
  The program is dynamically typed Python that handles decoded JSON. A Python number is an
  unbounded \<open>int\<close> or a binary64 \<open>float\<close>; a float is represented by the rational number
  it denotes (only finite floats are modelled: overflow to infinity and NaN are outside
  the model). Decoded JSON is \<open>pyval\<close>; a \<open>dict\<close> is an association list that is read
  with \<open>map_of\<close>.
\<close>

datatype number = PyInt int | PyFloat rat

fun num_value :: "number \<Rightarrow> rat" where
  "num_value (PyInt i) = of_int i"
| "num_value (PyFloat f) = f"

datatype pyval =
    PNone
  | PBool bool
  | PNum number
  | PStr string
  | PList "pyval list"
  | PDict "(string \<times> pyval) list"

datatype py_exn =
    Invalid_token_price number  \<comment> \<open>\<open>ValueError(f"Invalid token price: {token_price_usd}")\<close>\<close>
  | Bad_literal string          \<comment> \<open>the \<open>ValueError\<close> of \<open>float(s)\<close> and \<open>int(s)\<close>\<close>
  | TypeError
  | AttributeError
  | ZeroDivisionError
  | RequestException string     \<comment> \<open>\<open>requests.exceptions.RequestException\<close> with its \<open>str(e)\<close>\<close>

fun is_ValueError :: "py_exn \<Rightarrow> bool" where
  "is_ValueError (Invalid_token_price p) = True"
| "is_ValueError (Bad_literal s) = True"
| "is_ValueError e = False"

text \<open>Truth value testing (\<open>if x:\<close>, \<open>not x\<close>, \<open>x and y\<close>).\<close>

fun truthy :: "pyval \<Rightarrow> bool" where
  "truthy PNone = False"
| "truthy (PBool b) = b"
| "truthy (PNum n) = (num_value n \<noteq> 0)"
| "truthy (PStr s) = (s \<noteq> [])"
| "truthy (PList xs) = (xs \<noteq> [])"
| "truthy (PDict kvs) = (kvs \<noteq> [])"

text \<open>\<open>d.get(key, default)\<close>.\<close>

definition dict_get :: "(string \<times> pyval) list \<Rightarrow> string \<Rightarrow> pyval \<Rightarrow> pyval" where
  "dict_get d key dflt = (case map_of d key of None \<Rightarrow> dflt | Some v \<Rightarrow> v)"

text \<open>
  The numeric reading of a value in arithmetic and comparisons: \<open>bool\<close> is a subclass of
  \<open>int\<close>; every other non-number raises \<open>TypeError\<close> there.
\<close>

fun as_number :: "pyval \<Rightarrow> number option" where
  "as_number (PNum n) = Some n"
| "as_number (PBool b) = Some (PyInt (if b then 1 else 0))"
| "as_number v = None"

text \<open>What a \<open>for\<close> loop iterates over; \<open>None\<close> stands for "not iterable" (\<open>TypeError\<close>).\<close>

fun py_iter :: "pyval \<Rightarrow> pyval list option" where
  "py_iter (PList xs) = Some xs"
| "py_iter (PDict kvs) = Some (map (\<lambda>kv. PStr (fst kv)) kvs)"
| "py_iter (PStr s) = Some (map (\<lambda>c. PStr [c]) s)"
| "py_iter v = None"

section \<open>The platform: rounding and built-in conversions\<close>

text \<open>
  What the interpreter and its libraries supply is a parameter of the model:
  \<^item> \<open>round_float\<close>: the rounding of an exact result to binary64 (every float operation
    returns the correctly rounded exact result);
  \<^item> \<open>round_decimal\<close>: the rounding of the \<open>decimal\<close> module's context (28 significant
    digits, half-even by default);
  \<^item> \<open>float_repr\<close>: the number that \<open>Decimal(str(x))\<close> reads from a float \<open>x\<close>;
  \<^item> \<open>float_of_str\<close>, \<open>int_of_str\<close>: \<open>float(s)\<close> and \<open>int(s)\<close> on a string, \<open>None\<close> when
    they raise \<open>ValueError\<close>;
  \<^item> \<open>str_upper\<close>: \<open>s.upper()\<close>;
  \<^item> \<open>exn_text\<close>: \<open>str(e)\<close> of an exception.
\<close>

record platform =
  round_float :: "rat \<Rightarrow> rat"
  round_decimal :: "rat \<Rightarrow> rat"
  float_repr :: "rat \<Rightarrow> rat"
  float_of_str :: "string \<Rightarrow> rat option"
  int_of_str :: "string \<Rightarrow> int option"
  str_upper :: "string \<Rightarrow> string"
  exn_text :: "py_exn \<Rightarrow> string"

text \<open>\<open>float(n)\<close> of a number, and the value \<open>Decimal(str(n))\<close> holds.\<close>

fun as_float :: "platform \<Rightarrow> number \<Rightarrow> rat" where
  "as_float pf (PyInt i) = round_float pf (of_int i)"
| "as_float pf (PyFloat f) = f"

fun as_decimal :: "platform \<Rightarrow> number \<Rightarrow> rat" where
  "as_decimal pf (PyInt i) = of_int i"
| "as_decimal pf (PyFloat f) = float_repr pf f"

subsection \<open>The two roundings, concretely\<close>

text \<open>
  Round-to-nearest, ties-to-even, to 53 significant bits (binary64, with the gradual
  underflow below \<open>2^-1022\<close>) and to 28 significant decimal digits (the default
  \<open>decimal\<close> context). They evaluate the model at concrete inputs.
\<close>

definition pow2 :: "int \<Rightarrow> rat" where
  "pow2 k = (if 0 \<le> k then 2 ^ nat k else 1 / 2 ^ nat (- k))"

definition pow10 :: "int \<Rightarrow> rat" where
  "pow10 k = (if 0 \<le> k then 10 ^ nat k else 1 / 10 ^ nat (- k))"

text \<open>
  For \<open>0 < x\<close>: the \<open>e\<close> with \<open>2^e \<le> x < 2^(e+1)\<close>, and the same in base ten
  (\<open>decimal_digits n\<close> is the number of decimal digits of \<open>n \<ge> 1\<close>).
\<close>

definition binary_exponent :: "rat \<Rightarrow> int" where
  "binary_exponent x =
     (if 1 \<le> x then bitlen \<lfloor>x\<rfloor> - 1
      else let j = bitlen \<lfloor>1 / x\<rfloor> - 1
           in if x * 2 ^ nat j = 1 then - j else - j - 1)"

function decimal_digits :: "int \<Rightarrow> int" where
  "decimal_digits n = (if n < 10 then 1 else decimal_digits (n div 10) + 1)"
  by pat_completeness auto
termination
  by (relation "measure nat") auto

definition decimal_exponent :: "rat \<Rightarrow> int" where
  "decimal_exponent x =
     (if 1 \<le> x then decimal_digits \<lfloor>x\<rfloor> - 1
      else let j = decimal_digits \<lfloor>1 / x\<rfloor> - 1
           in if x * 10 ^ nat j = 1 then - j else - j - 1)"

definition round_half_even :: "rat \<Rightarrow> int" where
  "round_half_even m =
     (let f = \<lfloor>m\<rfloor>; r = m - of_int f
      in if r < 1 / 2 then f else if 1 / 2 < r then f + 1
         else if even f then f else f + 1)"

definition round_binary64 :: "rat \<Rightarrow> rat" where
  "round_binary64 x =
     (if x = 0 then 0
      else let q = max (binary_exponent \<bar>x\<bar> - 52) (- 1074)
           in sgn x * of_int (round_half_even (\<bar>x\<bar> / pow2 q)) * pow2 q)"

definition round_decimal28 :: "rat \<Rightarrow> rat" where
  "round_decimal28 x =
     (if x = 0 then 0
      else let q = decimal_exponent \<bar>x\<bar> - 27
           in sgn x * of_int (round_half_even (\<bar>x\<bar> / pow10 q)) * pow10 q)"

text \<open>
  A platform with these two roundings. Its other fields are fixed arbitrarily: it is
  applied only to inputs that never reach them (Python \<open>int\<close> arguments, no strings).
\<close>

definition binary64_decimal28 :: platform where
  "binary64_decimal28 =
     \<lparr>round_float = round_binary64, round_decimal = round_decimal28,
      float_repr = (\<lambda>x. x), float_of_str = (\<lambda>s. None), int_of_str = (\<lambda>s. None),
      str_upper = (\<lambda>s. s), exn_text = (\<lambda>e. [])\<rparr>"

section \<open>\<open>constants.py\<close>\<close>

definition MAX_RETRIES :: nat where "MAX_RETRIES = 3"
definition RETRY_BACKOFF_FACTOR :: nat where "RETRY_BACKOFF_FACTOR = 2"
definition RATE_LIMIT_DELAY :: rat where "RATE_LIMIT_DELAY = 1 / 2"
definition HIGH_PRICE_IMPACT_THRESHOLD :: rat where "HIGH_PRICE_IMPACT_THRESHOLD = 5"
definition ROUTE_CONCENTRATION_THRESHOLD :: rat where "ROUTE_CONCENTRATION_THRESHOLD = 70"
definition MIN_TVL_MULTIPLE :: rat where "MIN_TVL_MULTIPLE = 5"

section \<open>\<open>utils.py\<close>\<close>

subsection \<open>Unit conversions\<close>

text \<open>\<open>int(d.to_integral_value(ROUND_DOWN))\<close>: truncation toward zero.\<close>

definition to_integral_round_down :: "rat \<Rightarrow> int" where
  "to_integral_round_down x = (if 0 \<le> x then \<lfloor>x\<rfloor> else \<lceil>x\<rceil>)"

text \<open>
  \<open>usd_to_native_units(amount_usd, token_price_usd, decimals)\<close>. The guard compares the
  price as it is; the division and the scaling are \<open>Decimal\<close> operations, each rounded by
  the context; \<open>Decimal(10 ** decimals)\<close> is exact. \<open>decimals\<close> is a natural number (a
  token's decimal places). \<open>Decimal(str(x))\<close> of a positive price is positive, so the
  division has a non-zero divisor.
\<close>

definition usd_to_native_units :: "platform \<Rightarrow> number \<Rightarrow> number \<Rightarrow> nat \<Rightarrow> py_exn + int" where
  "usd_to_native_units pf amount_usd token_price_usd decimals =
     (if num_value token_price_usd \<le> 0 then Inl (Invalid_token_price token_price_usd)
      else
        let amount_decimal = as_decimal pf amount_usd;
            price_decimal = as_decimal pf token_price_usd;
            token_amount = round_decimal pf (amount_decimal / price_decimal);
            multiplier = 10 ^ decimals
        in Inr (to_integral_round_down (round_decimal pf (token_amount * multiplier))))"

text \<open>
  True division \<open>a / b\<close> of two numbers with \<open>b\<close> not zero: of two \<open>int\<close>s it is the
  correctly rounded quotient; otherwise both operands are floats first.
\<close>

fun py_truediv :: "platform \<Rightarrow> number \<Rightarrow> number \<Rightarrow> rat" where
  "py_truediv pf (PyInt a) (PyInt b) = round_float pf (of_int a / of_int b)"
| "py_truediv pf a b = round_float pf (as_float pf a / as_float pf b)"

text \<open>
  \<open>native_to_usd(amount_native, token_price_usd, decimals)\<close> and
  \<open>native_to_tokens(amount_native, decimals)\<close>: \<open>10 ** decimals\<close> is an \<open>int\<close>; the
  product of the token amount (a float) with the price is a float operation.
\<close>

definition native_to_usd :: "platform \<Rightarrow> number \<Rightarrow> number \<Rightarrow> nat \<Rightarrow> rat" where
  "native_to_usd pf amount_native token_price_usd decimals =
     (let token_amount = py_truediv pf amount_native (PyInt (10 ^ decimals))
      in round_float pf (token_amount * as_float pf token_price_usd))"

definition native_to_tokens :: "platform \<Rightarrow> number \<Rightarrow> nat \<Rightarrow> rat" where
  "native_to_tokens pf amount_native decimals =
     py_truediv pf amount_native (PyInt (10 ^ decimals))"

subsection \<open>Route plans\<close>

text \<open>
  Both route functions read a step the same way:
  \<open>swap_info = step.get('swapInfo', step.get('swap_info', {}))\<close> for a step that is a
  \<open>dict\<close>, and they skip the step unless \<open>swap_info\<close> is a \<open>dict\<close> too.
\<close>

definition route_swap_info :: "pyval \<Rightarrow> (string \<times> pyval) list option" where
  "route_swap_info step =
     (case step of
        PDict d \<Rightarrow>
          (case dict_get d ''swapInfo'' (dict_get d ''swap_info'' (PDict [])) of
             PDict swap_info \<Rightarrow> Some swap_info
           | _ \<Rightarrow> None)
      | _ \<Rightarrow> None)"

text \<open>\<open>swap_info.get('label', swap_info.get('ammKey', 'Unknown'))\<close>, for a step that is read.\<close>

definition route_step_label :: "pyval \<Rightarrow> pyval option" where
  "route_step_label step =
     map_option (\<lambda>swap_info. dict_get swap_info ''label''
                    (dict_get swap_info ''ammKey'' (PStr ''Unknown'')))
       (route_swap_info step)"

text \<open>
  The loop of \<open>parse_route_summary\<close> over the steps, with its accumulator \<open>dexes\<close>.
  \<open>label not in dexes\<close> is Python's \<open>==\<close> against each element; on strings that is
  equality of the strings. On other values \<open>==\<close> is coarser than HOL equality
  (\<open>1 == 1.0 == True\<close>), which cannot change the summary: the first label that is not a
  string is appended at its first occurrence either way, \<open>join\<close> raises if it is among the
  first three, and later entries are never read.
\<close>

fun collect_dexes :: "pyval list \<Rightarrow> pyval list \<Rightarrow> pyval list" where
  "collect_dexes [] dexes = dexes"
| "collect_dexes (step # rest) dexes =
     (case route_step_label step of
        None \<Rightarrow> collect_dexes rest dexes
      | Some label \<Rightarrow>
          if truthy label \<and> label \<notin> set dexes
          then collect_dexes rest (dexes @ [label])
          else collect_dexes rest dexes)"

text \<open>\<open>sep.join(items)\<close>: \<open>TypeError\<close> (here \<open>None\<close>) when an item is not a string.\<close>

fun str_join :: "string \<Rightarrow> string list \<Rightarrow> string" where
  "str_join sep [] = []"
| "str_join sep [s] = s"
| "str_join sep (s # t # rest) = s @ sep @ str_join sep (t # rest)"

fun str_items :: "pyval list \<Rightarrow> string list option" where
  "str_items [] = Some []"
| "str_items (PStr s # vs) = map_option ((#) s) (str_items vs)"
| "str_items (v # vs) = None"

definition parse_route_summary :: "pyval \<Rightarrow> py_exn + string" where
  "parse_route_summary route_plan =
     (if \<not> truthy route_plan then Inr ''Unknown''
      else case py_iter route_plan of
        None \<Rightarrow> Inl TypeError
      | Some steps \<Rightarrow>
          let dexes = collect_dexes steps []
          in if dexes = [] then Inr ''Unknown''
             else case str_items (take 3 dexes) of
                    None \<Rightarrow> Inl TypeError
                  | Some labels \<Rightarrow> Inr (str_join '', '' labels))"

text \<open>\<open>float(v)\<close> for a value that is not \<open>None\<close>.\<close>

definition py_float :: "platform \<Rightarrow> pyval \<Rightarrow> py_exn + rat" where
  "py_float pf v =
     (case v of
        PNum n \<Rightarrow> Inr (as_float pf n)
      | PBool b \<Rightarrow> Inr (if b then 1 else 0)
      | PStr s \<Rightarrow> (case float_of_str pf s of None \<Rightarrow> Inl (Bad_literal s) | Some f \<Rightarrow> Inr f)
      | _ \<Rightarrow> Inl TypeError)"

text \<open>
  \<open>percent = swap_info.get('percent', swap_info.get('percentage'))\<close> of a step that is
  read; \<open>None\<close> when the step is skipped or \<open>percent is None\<close>.
\<close>

definition route_step_percent :: "pyval \<Rightarrow> pyval option" where
  "route_step_percent step =
     (case route_swap_info step of
        None \<Rightarrow> None
      | Some swap_info \<Rightarrow>
          let percent = dict_get swap_info ''percent'' (dict_get swap_info ''percentage'' PNone)
          in if percent = PNone then None else Some percent)"

fun collect_percentages :: "platform \<Rightarrow> pyval list \<Rightarrow> rat list \<Rightarrow> py_exn + rat list" where
  "collect_percentages pf [] percentages = Inr percentages"
| "collect_percentages pf (step # rest) percentages =
     (case route_step_percent step of
        None \<Rightarrow> collect_percentages pf rest percentages
      | Some percent \<Rightarrow>
          (case py_float pf percent of
             Inl e \<Rightarrow> Inl e
           | Inr f \<Rightarrow> collect_percentages pf rest (percentages @ [f])))"

text \<open>\<open>max\<close> of a non-empty list, given as head and tail: the first largest element.\<close>

fun py_max :: "rat \<Rightarrow> rat list \<Rightarrow> rat" where
  "py_max m [] = m"
| "py_max m (x # xs) = (if m < x then py_max x xs else py_max m xs)"

definition calculate_route_concentration :: "platform \<Rightarrow> pyval \<Rightarrow> py_exn + rat option" where
  "calculate_route_concentration pf route_plan =
     (if \<not> truthy route_plan then Inr None
      else case py_iter route_plan of
        None \<Rightarrow> Inl TypeError
      | Some steps \<Rightarrow>
          (case collect_percentages pf steps [] of
             Inl e \<Rightarrow> Inl e
           | Inr [] \<Rightarrow> Inr None
           | Inr (p # ps) \<Rightarrow> Inr (Some (py_max p ps))))"

subsection \<open>The route summary and concentration as the specification words them\<close>









section \<open>\<open>jupiter_client.py\<close>\<close>

definition USDC_MINT :: string where
  "USDC_MINT = ''EPjFWdd5AufqSSqeM2qN1xzybapC8G4wEGGkZwyTDt1v''"

definition SWAP_SIZE_BANDS_USD :: "number list" where
  "SWAP_SIZE_BANDS_USD =
     [PyInt 1000000, PyInt 5000000, PyInt 10000000, PyInt 20000000, PyInt 50000000,
      PyInt 100000000]"

subsection \<open>The quote dictionary\<close>

text \<open>
  The dictionary that the client returns for one quote. \<open>quote_price_impact\<close>,
  \<open>quote_out_amount\<close>, \<open>quote_slippage_bps\<close>, \<open>quote_router\<close> and \<open>quote_route_info\<close> hold
  whatever Python value the code puts there (\<open>PNone\<close> is \<open>None\<close>). The error dictionaries
  have no \<open>route_summary\<close> and \<open>route_concentration\<close> keys; they are read with \<open>.get\<close>,
  which gives \<open>None\<close>.
\<close>

record quote =
  quote_price_impact :: pyval
  quote_out_amount :: pyval
  quote_out_amount_usd :: rat
  quote_slippage_bps :: pyval
  quote_router :: pyval
  quote_route_info :: pyval
  quote_route_summary :: "string option"
  quote_route_concentration :: "rat option"
  quote_success :: bool
  quote_error :: "string option"

definition failed_quote :: "string \<Rightarrow> quote" where
  "failed_quote msg =
     \<lparr>quote_price_impact = PNone, quote_out_amount = PNum (PyInt 0),
      quote_out_amount_usd = 0, quote_slippage_bps = PNum (PyInt 0), quote_router = PNone,
      quote_route_info = PList [], quote_route_summary = None,
      quote_route_concentration = None, quote_success = False, quote_error = Some msg\<rparr>"

subsection \<open>\<open>_parse_quote_response\<close>\<close>

text \<open>
  \<open>abs(price_impact_decimal * 100)\<close>. A list times \<open>100\<close> is a list, on which \<open>abs\<close> raises
  \<open>TypeError\<close> as the product of \<open>None\<close> or a \<open>dict\<close> does; a string has been converted
  before.
\<close>

definition price_impact_percent :: "platform \<Rightarrow> pyval \<Rightarrow> py_exn + pyval" where
  "price_impact_percent pf v =
     (case as_number v of
        None \<Rightarrow> Inl TypeError
      | Some (PyInt i) \<Rightarrow> Inr (PNum (PyInt \<bar>i * 100\<bar>))
      | Some (PyFloat f) \<Rightarrow> Inr (PNum (PyFloat \<bar>round_float pf (f * 100)\<bar>)))"

text \<open>\<open>if isinstance(x, str): x = float(x)\<close> and the same with \<open>int\<close>.\<close>

definition float_if_str :: "platform \<Rightarrow> pyval \<Rightarrow> py_exn + pyval" where
  "float_if_str pf v =
     (case v of
        PStr s \<Rightarrow> (case float_of_str pf s of
                     None \<Rightarrow> Inl (Bad_literal s)
                   | Some f \<Rightarrow> Inr (PNum (PyFloat f)))
      | _ \<Rightarrow> Inr v)"

definition int_if_str :: "platform \<Rightarrow> pyval \<Rightarrow> py_exn + pyval" where
  "int_if_str pf v =
     (case v of
        PStr s \<Rightarrow> (case int_of_str pf s of
                     None \<Rightarrow> Inl (Bad_literal s)
                   | Some i \<Rightarrow> Inr (PNum (PyInt i)))
      | _ \<Rightarrow> Inr v)"

text \<open>
  The body of the \<open>try\<close>, statement by statement; \<open>data.get\<close> of a value that is not a
  \<open>dict\<close> raises \<open>AttributeError\<close>.
\<close>

definition parse_quote_fields :: "platform \<Rightarrow> pyval \<Rightarrow> py_exn + quote" where
  "parse_quote_fields pf data =
     (case data of
        PDict d \<Rightarrow>
          (case float_if_str pf (dict_get d ''priceImpact'' (PNum (PyInt 0))) of
             Inl e \<Rightarrow> Inl e
           | Inr price_impact_decimal \<Rightarrow>
          (case price_impact_percent pf price_impact_decimal of
             Inl e \<Rightarrow> Inl e
           | Inr price_impact_pct \<Rightarrow>
          (case int_if_str pf (dict_get d ''outAmount'' (PNum (PyInt 0))) of
             Inl e \<Rightarrow> Inl e
           | Inr out_amount \<Rightarrow>
          (let slippage_bps = dict_get d ''slippageBps'' (PNum (PyInt 0));
               router = dict_get d ''router'' (PStr ''unknown'');
               route_plan = dict_get d ''routePlan'' (PList [])
           in case parse_route_summary route_plan of
                Inl e \<Rightarrow> Inl e
              | Inr summary \<Rightarrow>
             (case calculate_route_concentration pf route_plan of
                Inl e \<Rightarrow> Inl e
              | Inr concentration \<Rightarrow>
                  Inr \<lparr>quote_price_impact = price_impact_pct, quote_out_amount = out_amount,
                       quote_out_amount_usd = 0, quote_slippage_bps = slippage_bps,
                       quote_router = router, quote_route_info = route_plan,
                       quote_route_summary = Some summary,
                       quote_route_concentration = concentration,
                       quote_success = True, quote_error = None\<rparr>)))))
      | _ \<Rightarrow> Inl AttributeError)"

definition parse_quote_response :: "platform \<Rightarrow> pyval \<Rightarrow> quote" where
  "parse_quote_response pf data =
     (case parse_quote_fields pf data of
        Inl e \<Rightarrow> failed_quote (''Parse error: '' @ exn_text pf e)
      | Inr q \<Rightarrow> q)"

subsection \<open>The upstream services and the effects of a run\<close>

text \<open>
  What \<open>session.get\<close> does: it raises a \<open>RequestException\<close> (with its \<open>str(e)\<close>), or it
  returns a response. A response has its status code, the text of the \<open>HTTPError\<close> that
  \<open>raise_for_status\<close> raises when the status is in \<open>400..599\<close>, and what \<open>response.json()\<close>
  does: the decoded body, or the text of the \<open>JSONDecodeError\<close> it raises (a
  \<open>RequestException\<close> since requests 2.27).
\<close>

datatype http_outcome =
    Raises string
  | Response nat string "string + pyval"

text \<open>
  The services are oracles: the reply to a GET is a function of how many GETs the service
  has answered before and of the request (the market for Kamino; input mint, output mint
  and amount for Jupiter). The effects of a run are the requests sent and the seconds
  slept, in order.
\<close>

type_synonym quote_request = "string \<times> string \<times> int"

record upstream =
  kamino_get :: "nat \<Rightarrow> string \<Rightarrow> http_outcome"
  jupiter_get :: "nat \<Rightarrow> quote_request \<Rightarrow> http_outcome"

record effects =
  kamino_log :: "string list"
  jupiter_log :: "quote_request list"
  sleep_log :: "rat list"

definition no_effects :: effects where
  "no_effects = \<lparr>kamino_log = [], jupiter_log = [], sleep_log = []\<rparr>"

definition sleep :: "rat \<Rightarrow> effects \<Rightarrow> effects" where
  "sleep seconds s = s\<lparr>sleep_log := sleep_log s @ [seconds]\<rparr>"

subsection \<open>\<open>query_swap_price_impact\<close>\<close>

text \<open>
  One pass through the body of \<open>for attempt in range(MAX_RETRIES)\<close>, given the outcome of
  the GET: \<open>Inl q\<close> returns \<open>q\<close>; \<open>Inr t\<close> sleeps \<open>t\<close> seconds and goes on to the next
  attempt (\<open>continue\<close> after a 429, the end of the \<open>except\<close> block otherwise).
\<close>

definition request_failed :: "nat \<Rightarrow> string \<Rightarrow> quote + rat" where
  "request_failed attempt msg =
     (if attempt < MAX_RETRIES - 1 then Inr (of_nat (RETRY_BACKOFF_FACTOR ^ attempt))
      else Inl (failed_quote msg))"

definition query_attempt :: "platform \<Rightarrow> nat \<Rightarrow> http_outcome \<Rightarrow> quote + rat" where
  "query_attempt pf attempt outcome =
     (case outcome of
        Raises msg \<Rightarrow> request_failed attempt msg
      | Response status_code http_error body \<Rightarrow>
          if status_code = 429 then Inr (of_nat (RETRY_BACKOFF_FACTOR ^ (attempt + 1)))
          else if 400 \<le> status_code \<and> status_code < 600 then request_failed attempt http_error
          else (case body of
                  Inl msg \<Rightarrow> request_failed attempt msg
                | Inr data \<Rightarrow> Inl (parse_quote_response pf data)))"

text \<open>The loop over the attempts that remain; after the last one, the final \<open>return\<close>.\<close>

fun query_attempts ::
  "platform \<Rightarrow> upstream \<Rightarrow> quote_request \<Rightarrow> nat list \<Rightarrow> effects \<Rightarrow> quote \<times> effects" where
  "query_attempts pf up request [] s = (failed_quote ''Max retries exceeded'', s)"
| "query_attempts pf up request (attempt # rest) s =
     (let outcome = jupiter_get up (length (jupiter_log s)) request;
          s1 = s\<lparr>jupiter_log := jupiter_log s @ [request]\<rparr>
      in case query_attempt pf attempt outcome of
           Inl q \<Rightarrow> (q, s1)
         | Inr seconds \<Rightarrow> query_attempts pf up request rest (sleep seconds s1))"

text \<open>The method is always called without a \<open>taker\<close>.\<close>

definition query_swap_price_impact ::
  "platform \<Rightarrow> upstream \<Rightarrow> string \<Rightarrow> string \<Rightarrow> int \<Rightarrow> effects \<Rightarrow> quote \<times> effects" where
  "query_swap_price_impact pf up input_mint output_mint amount_in_native s =
     query_attempts pf up (input_mint, output_mint, amount_in_native) [0..<MAX_RETRIES] s"

subsection \<open>\<open>analyze_liquidity_depth\<close>\<close>

text \<open>
  One row of the liquidity curve. The row of a failed conversion has no \<open>slippage_bps\<close>
  key (\<open>None\<close> here).
\<close>

record depth_point =
  swap_size_usd :: number
  swap_size_native :: int
  swap_size_tokens :: rat
  price_impact_pct :: pyval
  output_usd :: rat
  effective_price :: rat
  slippage_bps :: "pyval option"
  router :: pyval
  route_summary :: "string option"
  route_concentration :: "rat option"
  success :: bool
  error :: "string option"

text \<open>
  \<open>output_usd\<close> and \<open>effective_price\<close> of a quote: \<open>quote["out_amount"] > 0\<close> is evaluated
  only for a successful quote and raises \<open>TypeError\<close> on a value that is not a number.
\<close>

definition quote_output ::
  "platform \<Rightarrow> quote \<Rightarrow> number \<Rightarrow> nat \<Rightarrow> rat \<Rightarrow> py_exn + rat \<times> rat" where
  "quote_output pf q output_price_usd output_decimals tokens =
     (if quote_success q then
        (case as_number (quote_out_amount q) of
           None \<Rightarrow> Inl TypeError
         | Some out_amount \<Rightarrow>
             if 0 < num_value out_amount then
               let out_usd = native_to_usd pf out_amount output_price_usd output_decimals
               in Inr (out_usd, if 0 < tokens then round_float pf (out_usd / tokens) else 0)
             else Inr (0, 0))
      else Inr (0, 0))"

text \<open>
  The body of the loop for one size band. Only \<open>ValueError\<close> is caught around the
  conversion, and no pacing delay follows a failed conversion (\<open>continue\<close>). The
  assignment to \<open>quote["out_amount_usd"]\<close> is left out: nothing reads it.
\<close>

definition analyze_band ::
  "platform \<Rightarrow> upstream \<Rightarrow> string \<Rightarrow> nat \<Rightarrow> number \<Rightarrow> nat \<Rightarrow> number \<Rightarrow> number \<Rightarrow> effects
     \<Rightarrow> (py_exn + depth_point) \<times> effects" where
  "analyze_band pf up input_mint token_decimals token_price_usd output_decimals
       output_price_usd size_usd s =
     (case usd_to_native_units pf size_usd token_price_usd token_decimals of
        Inl e \<Rightarrow>
          if is_ValueError e then
            (Inr \<lparr>swap_size_usd = size_usd, swap_size_native = 0, swap_size_tokens = 0,
                  price_impact_pct = PNone, output_usd = 0, effective_price = 0,
                  slippage_bps = None, router = PNone, route_summary = None,
                  route_concentration = None, success = False,
                  error = Some (exn_text pf e)\<rparr>, s)
          else (Inl e, s)
      | Inr amount_native \<Rightarrow>
          let tokens = native_to_tokens pf (PyInt amount_native) token_decimals;
              (q, s1) = query_swap_price_impact pf up input_mint USDC_MINT amount_native s
          in case quote_output pf q output_price_usd output_decimals tokens of
               Inl e \<Rightarrow> (Inl e, s1)
             | Inr (out_usd, price) \<Rightarrow>
                 (Inr \<lparr>swap_size_usd = size_usd, swap_size_native = amount_native,
                       swap_size_tokens = tokens, price_impact_pct = quote_price_impact q,
                       output_usd = out_usd, effective_price = price,
                       slippage_bps = Some (quote_slippage_bps q), router = quote_router q,
                       route_summary = quote_route_summary q,
                       route_concentration = quote_route_concentration q,
                       success = quote_success q, error = quote_error q\<rparr>,
                  sleep RATE_LIMIT_DELAY s1))"

text \<open>The loop over the size bands: an exception ends it.\<close>

fun analyze_liquidity_depth ::
  "platform \<Rightarrow> upstream \<Rightarrow> string \<Rightarrow> nat \<Rightarrow> number \<Rightarrow> nat \<Rightarrow> number \<Rightarrow> number list \<Rightarrow> effects
     \<Rightarrow> (py_exn + depth_point list) \<times> effects" where
  "analyze_liquidity_depth pf up input_mint token_decimals token_price_usd output_decimals
       output_price_usd [] s = (Inr [], s)"
| "analyze_liquidity_depth pf up input_mint token_decimals token_price_usd output_decimals
       output_price_usd (size_usd # sizes) s =
     (case analyze_band pf up input_mint token_decimals token_price_usd output_decimals
             output_price_usd size_usd s of
        (Inl e, s1) \<Rightarrow> (Inl e, s1)
      | (Inr point, s1) \<Rightarrow>
          (case analyze_liquidity_depth pf up input_mint token_decimals token_price_usd
                  output_decimals output_price_usd sizes s1 of
             (Inl e, s2) \<Rightarrow> (Inl e, s2)
           | (Inr points, s2) \<Rightarrow> (Inr (point # points), s2)))"

section \<open>\<open>kamino_client.py\<close>\<close>

definition VOLATILE_ASSETS :: "string list" where
  "VOLATILE_ASSETS =
     [''SOL'', ''MSOL'', ''JITOSOL'', ''BSOL'', ''STSOL'', ''JSOL'', ''BNSOL'', ''HBSOL'',
      ''COMPASSSOL'', ''SUPSOL'', ''INF'']
     @ [''WBTC'', ''LBTC'', ''TBTC'', ''SBTC'']
     @ [''WETH'', ''STETH'', ''RETH'', ''CBETH'']"

text \<open>A reserve with the keys and types that \<open>fetch_market_reserves\<close> documents.\<close>

record reserve =
  symbol :: string
  mint_address :: string
  decimals :: nat
  total_deposits :: rat
  usd_price :: number
  tvl_usd :: rat
  reserve_pubkey :: string

text \<open>
  One pass through the retry loop of \<open>fetch_market_reserves\<close>, given the outcome of the
  GET: \<open>Inl r\<close> leaves the function with \<open>r\<close> (the parsed reserves, or an exception),
  \<open>Inr t\<close> sleeps \<open>t\<close> seconds and goes on. There is no branch for status 429 here: it
  is an \<open>HTTPError\<close> like every other status in \<open>400..599\<close>. The last attempt re-raises
  the \<open>RequestException\<close> it caught. What \<open>_parse_reserves\<close> makes of the body is the
  parameter \<open>parse\<close>, an exception that it raises included: it is not a
  \<open>RequestException\<close> and leaves the function.
\<close>

definition fetch_failed :: "nat \<Rightarrow> string \<Rightarrow> (py_exn + reserve list) + rat" where
  "fetch_failed attempt msg =
     (if attempt < MAX_RETRIES - 1 then Inr (of_nat (RETRY_BACKOFF_FACTOR ^ attempt))
      else Inl (Inl (RequestException msg)))"

definition fetch_attempt ::
  "(pyval \<Rightarrow> py_exn + reserve list) \<Rightarrow> nat \<Rightarrow> http_outcome \<Rightarrow> (py_exn + reserve list) + rat" where
  "fetch_attempt parse attempt outcome =
     (case outcome of
        Raises msg \<Rightarrow> fetch_failed attempt msg
      | Response status_code http_error body \<Rightarrow>
          if 400 \<le> status_code \<and> status_code < 600 then fetch_failed attempt http_error
          else (case body of
                  Inl msg \<Rightarrow> fetch_failed attempt msg
                | Inr data \<Rightarrow> Inl (parse data)))"

text \<open>The loop over the attempts that remain; after the last one, \<open>return []\<close>.\<close>

fun fetch_attempts ::
  "(pyval \<Rightarrow> py_exn + reserve list) \<Rightarrow> upstream \<Rightarrow> string \<Rightarrow> nat list \<Rightarrow> effects
     \<Rightarrow> (py_exn + reserve list) \<times> effects" where
  "fetch_attempts parse up market [] s = (Inr [], s)"
| "fetch_attempts parse up market (attempt # rest) s =
     (let outcome = kamino_get up (length (kamino_log s)) market;
          s1 = s\<lparr>kamino_log := kamino_log s @ [market]\<rparr>
      in case fetch_attempt parse attempt outcome of
           Inl r \<Rightarrow> (r, s1)
         | Inr seconds \<Rightarrow> fetch_attempts parse up market rest (sleep seconds s1))"

definition fetch_market_reserves ::
  "(pyval \<Rightarrow> py_exn + reserve list) \<Rightarrow> upstream \<Rightarrow> string \<Rightarrow> effects
     \<Rightarrow> (py_exn + reserve list) \<times> effects" where
  "fetch_market_reserves parse up market_pubkey s =
     fetch_attempts parse up market_pubkey [0..<MAX_RETRIES] s"

definition filter_volatile_collateral ::
  "platform \<Rightarrow> reserve list \<Rightarrow> string list \<Rightarrow> reserve list" where
  "filter_volatile_collateral pf reserves asset_symbols =
     (let symbols_upper = set (map (str_upper pf) asset_symbols)
      in filter (\<lambda>r. str_upper pf (symbol r) \<in> symbols_upper) reserves)"

section \<open>\<open>analyzer.py\<close>\<close>

text \<open>
  A risk flag is a string in the code: \<open>QUOTE_FAILED\<close>, or a tag followed by a number that
  is formatted with one or no decimal place. The flag here carries the number that is
  handed to the format.
\<close>

datatype risk_flag =
    QUOTE_FAILED
  | HIGH_IMPACT rat
  | CONCENTRATED_ROUTE rat
  | LOW_TVL_RATIO rat

text \<open>
  \<open>_identify_risk_flags\<close>, rule by rule. \<open>x and x > t\<close> compares only a truthy \<open>x\<close>, and
  the comparison of a value that is not a number raises \<open>TypeError\<close>. The division
  \<open>tvl / swap_size\<close> is a float division: it raises \<open>ZeroDivisionError\<close> when the divisor is
  zero.
\<close>

definition high_impact_flags :: "pyval \<Rightarrow> py_exn + risk_flag list" where
  "high_impact_flags price_impact =
     (if truthy price_impact then
        (case as_number price_impact of
           None \<Rightarrow> Inl TypeError
         | Some n \<Rightarrow>
             Inr (if HIGH_PRICE_IMPACT_THRESHOLD < num_value n then [HIGH_IMPACT (num_value n)]
                  else []))
      else Inr [])"

definition concentration_flags :: "rat option \<Rightarrow> risk_flag list" where
  "concentration_flags concentration =
     (case concentration of
        None \<Rightarrow> []
      | Some c \<Rightarrow>
          if c \<noteq> 0 \<and> ROUTE_CONCENTRATION_THRESHOLD < c then [CONCENTRATED_ROUTE c] else [])"

definition tvl_ratio_flags :: "platform \<Rightarrow> rat \<Rightarrow> number \<Rightarrow> py_exn + risk_flag list" where
  "tvl_ratio_flags pf tvl swap_size =
     (if 0 < tvl then
        if as_float pf swap_size = 0 then Inl ZeroDivisionError
        else
          let tvl_ratio = round_float pf (tvl / as_float pf swap_size)
          in Inr (if tvl_ratio < MIN_TVL_MULTIPLE then [LOW_TVL_RATIO tvl_ratio] else [])
      else Inr [])"

definition identify_risk_flags ::
  "platform \<Rightarrow> reserve \<Rightarrow> depth_point \<Rightarrow> py_exn + risk_flag list" where
  "identify_risk_flags pf reserve liquidity_result =
     (if \<not> success liquidity_result then Inr [QUOTE_FAILED]
      else case high_impact_flags (price_impact_pct liquidity_result) of
        Inl e \<Rightarrow> Inl e
      | Inr impact \<Rightarrow>
          (case tvl_ratio_flags pf (tvl_usd reserve) (swap_size_usd liquidity_result) of
             Inl e \<Rightarrow> Inl e
           | Inr ratio \<Rightarrow>
               Inr (impact @ concentration_flags (route_concentration liquidity_result)
                    @ ratio)))"

text \<open>A row of the report (the timestamp, one per run, is left out).\<close>

record report_row =
  row_reserve :: reserve
  row_point :: depth_point
  risk_flags :: "risk_flag list"

fun flag_points ::
  "platform \<Rightarrow> reserve \<Rightarrow> depth_point list \<Rightarrow> py_exn + report_row list" where
  "flag_points pf reserve [] = Inr []"
| "flag_points pf reserve (point # points) =
     (case identify_risk_flags pf reserve point of
        Inl e \<Rightarrow> Inl e
      | Inr flags \<Rightarrow>
          (case flag_points pf reserve points of
             Inl e \<Rightarrow> Inl e
           | Inr rows \<Rightarrow>
               Inr (\<lparr>row_reserve = reserve, row_point = point, risk_flags = flags\<rparr> # rows)))"

text \<open>
  Step 3 of \<open>generate_liquidity_report\<close>: the loop over the reserves. The client's
  defaults are the output token: 6 decimals at the price \<open>1.0\<close>.
\<close>

fun analyze_reserves ::
  "platform \<Rightarrow> upstream \<Rightarrow> number list \<Rightarrow> reserve list \<Rightarrow> effects
     \<Rightarrow> (py_exn + report_row list) \<times> effects" where
  "analyze_reserves pf up sizes [] s = (Inr [], s)"
| "analyze_reserves pf up sizes (reserve # reserves) s =
     (case analyze_liquidity_depth pf up (mint_address reserve) (decimals reserve)
             (usd_price reserve) 6 (PyFloat 1) sizes s of
        (Inl e, s1) \<Rightarrow> (Inl e, s1)
      | (Inr liquidity_results, s1) \<Rightarrow>
          (case flag_points pf reserve liquidity_results of
             Inl e \<Rightarrow> (Inl e, s1)
           | Inr rows \<Rightarrow>
               (case analyze_reserves pf up sizes reserves s1 of
                  (Inl e, s2) \<Rightarrow> (Inl e, s2)
                | (Inr others, s2) \<Rightarrow> (Inr (rows @ others), s2))))"

text \<open>
  \<open>generate_liquidity_report\<close>: an exception of the fetch is not caught. \<open>x or y\<close> on
  the optional lists takes \<open>y\<close> for \<open>None\<close> and for the empty list (both \<open>[]\<close> here).
  The result is the list of rows; the data frame made of them, its summary and the
  logging are left out.
\<close>

definition generate_liquidity_report ::
  "platform \<Rightarrow> (pyval \<Rightarrow> py_exn + reserve list) \<Rightarrow> upstream \<Rightarrow> string \<Rightarrow> number list
     \<Rightarrow> string list \<Rightarrow> effects \<Rightarrow> (py_exn + report_row list) \<times> effects" where
  "generate_liquidity_report pf parse up market_pubkey swap_sizes asset_filter s =
     (case fetch_market_reserves parse up market_pubkey s of
        (Inl e, s1) \<Rightarrow> (Inl e, s1)
      | (Inr all_reserves, s1) \<Rightarrow>
          if all_reserves = [] then (Inr [], s1)
          else
            let volatile_reserves =
                  filter_volatile_collateral pf all_reserves
                    (if asset_filter = [] then VOLATILE_ASSETS else asset_filter)
            in if volatile_reserves = [] then (Inr [], s1)
               else analyze_reserves pf up
                      (if swap_sizes = [] then SWAP_SIZE_BANDS_USD else swap_sizes)
                      volatile_reserves s1)"

section \<open>Outcomes of a GET\<close>





definition fetch_exception :: "http_outcome \<Rightarrow> string option" where
  "fetch_exception outcome =
     (case outcome of
        Raises msg \<Rightarrow> Some msg
      | Response status_code http_error body \<Rightarrow>
          if 400 \<le> status_code \<and> status_code < 600 then Some http_error
          else (case body of Inl msg \<Rightarrow> Some msg | Inr data \<Rightarrow> None))"

section \<open>Rounding errors\<close>

text \<open>
  \<open>rounds_within r x y\<close>: \<open>y\<close> is \<open>x\<close> up to the relative error \<open>r\<close> (for \<open>x \<ge> 0\<close>). A
  correctly rounded binary64 operation stays within \<open>2^-53\<close> of its exact result, in the
  normal range, and so does the float that a decimal literal denotes; a \<open>Decimal\<close>
  operation in the default context stays within \<open>5 * 10^-28\<close>.
\<close>

definition binary64_unit_roundoff :: rat where
  "binary64_unit_roundoff = 1 / 2 ^ 53"

definition decimal28_unit_roundoff :: rat where
  "decimal28_unit_roundoff = 5 / 10 ^ 28"

definition rounds_within :: "rat \<Rightarrow> rat \<Rightarrow> rat \<Rightarrow> bool" where
  "rounds_within r x y = (\<bar>y - x\<bar> \<le> r * x)"

section \<open>Example data\<close>

definition example_point :: "number \<Rightarrow> pyval \<Rightarrow> bool \<Rightarrow> depth_point" where
  "example_point size_usd impact ok =
     \<lparr>swap_size_usd = size_usd, swap_size_native = 0, swap_size_tokens = 0,
      price_impact_pct = impact, output_usd = 0, effective_price = 0,
      slippage_bps = None, router = PNone, route_summary = None,
      route_concentration = None, success = ok, error = None\<rparr>"

definition example_reserve :: "rat \<Rightarrow> reserve" where
  "example_reserve tvl =
     \<lparr>symbol = ''SOL'', mint_address = ''So11111111111111111111111111111111111111112'',
      decimals = 9, total_deposits = tvl / 200, usd_price = PyInt 200,
      tvl_usd = tvl, reserve_pubkey = ''d4A2prbA2whesmvHaL88BH6Ewn5N4bTSU2Ze8P6Bc4Q''\<rparr>"

text \<open>
  An upstream that answers from a script, one outcome per GET in order, and refuses the
  connection when the script is used up.
\<close>

definition scripted :: "http_outcome list \<Rightarrow> nat \<Rightarrow> http_outcome" where
  "scripted outcomes k = (if k < length outcomes then outcomes ! k else Raises ''Connection refused'')"

definition example_upstream :: "http_outcome list \<Rightarrow> http_outcome list \<Rightarrow> upstream" where
  "example_upstream kamino_script jupiter_script =
     \<lparr>kamino_get = (\<lambda>k market. scripted kamino_script k),
      jupiter_get = (\<lambda>k request. scripted jupiter_script k)\<rparr>"

definition SOL_MINT :: string where
  "SOL_MINT = ''So11111111111111111111111111111111111111112''"

definition zero_output_reply :: pyval where
  "zero_output_reply =
     PDict [(''priceImpact'', PNum (PyFloat (1 / 4))), (''outAmount'', PNum (PyInt 0)),
            (''router'', PStr ''iris'')]"

text \<open>Replies of the aggregator, and a reserve parser that finds one SOL reserve.\<close>

definition router_only_reply :: "(string \<times> pyval) list" where
  "router_only_reply = [(''router'', PStr ''iris''), (''routePlan'', PList [])]"



definition MAIN_MARKET_PUBKEY :: string where
  "MAIN_MARKET_PUBKEY = ''7u3HeHxYDLhnCoErrtycNokbQYbWGzLs6JSDqGAv5PfF''"

definition example_parse :: "pyval \<Rightarrow> py_exn + reserve list" where
  "example_parse data = Inr [example_reserve 50000000]"

definition null_output_upstream :: upstream where
  "null_output_upstream =
     example_upstream [Response 200 [] (Inr (PDict []))]
       [Response 200 [] (Inr (PDict [(''outAmount'', PNone)]))]"

text \<open>Route plans: a step with a venue label, a step that also reports a percentage.\<close>

definition labelled_step :: "string \<Rightarrow> pyval" where
  "labelled_step l = PDict [(''swapInfo'', PDict [(''label'', PStr l)])]"





section \<open>Unit conversion: the price guard\<close>

lemma usd_to_native_units_error_iff:
  "(\<exists>e. usd_to_native_units pf amount price places = Inl e) \<longleftrightarrow> num_value price \<le> 0"
  by (simp add: usd_to_native_units_def Let_def)



section \<open>Risk flags\<close>

text \<open>
  C5. A point whose quote failed gets the flag \<open>QUOTE_FAILED\<close> and no other: the rules for
  price impact, route concentration and TVL ratio are not evaluated.
\<close>

theorem quote_failed_exclusive:
  "\<not> success point \<Longrightarrow> identify_risk_flags pf reserve point = Inr [QUOTE_FAILED]"
  by (simp add: identify_risk_flags_def)

theorem quote_failed_exclusive_witness:
  "identify_risk_flags binary64_decimal28 (example_reserve 10000000)
     (example_point (PyInt 5000000) (PNum (PyFloat 80)) False) = Inr [QUOTE_FAILED]"
proof -
  have "\<not> success (example_point (PyInt 5000000) (PNum (PyFloat 80)) False)"
    by (simp add: example_point_def)
  then show ?thesis by (rule quote_failed_exclusive)
qed

lemma tvl_ratio_flags_Inr:
  "0 < tvl \<Longrightarrow> as_float pf swap \<noteq> 0 \<Longrightarrow>
   tvl_ratio_flags pf tvl swap =
     Inr (if round_float pf (tvl / as_float pf swap) < MIN_TVL_MULTIPLE
          then [LOW_TVL_RATIO (round_float pf (tvl / as_float pf swap))] else [])"
  by (simp add: tvl_ratio_flags_def Let_def)

lemma tvl_ratio_flags_zero: "tvl \<le> 0 \<Longrightarrow> tvl_ratio_flags pf tvl swap = Inr []"
  by (simp add: tvl_ratio_flags_def)

lemma high_impact_no_low: "high_impact_flags v = Inr fs \<Longrightarrow> LOW_TVL_RATIO r \<notin> set fs"
  by (auto simp add: high_impact_flags_def split: if_splits option.splits)

lemma concentration_no_low: "LOW_TVL_RATIO r \<notin> set (concentration_flags c)"
  by (auto simp add: concentration_flags_def split: option.splits)

lemma high_impact_typed:
  "\<not> truthy v \<or> as_number v \<noteq> None \<Longrightarrow> \<exists>fs. high_impact_flags v = Inr fs"
  by (auto simp add: high_impact_flags_def split: option.splits)

text \<open>
  For a successful point with a swap size that is not zero and a reserve with positive
  TVL the evaluator computes \<open>tvl_usd / swap_size_usd\<close> and appends \<open>LOW_TVL_RATIO\<close> with
  that ratio exactly when the ratio is below \<open>MIN_TVL_MULTIPLE = 5\<close>; a reserve with TVL
  zero never gets the flag. The price impact of the point is \<open>None\<close> or a number, as every
  point that the client builds has it. The example is the reserve with TVL 10,000,000
  against the swap size 5,000,000: the flag \<open>LOW_TVL_RATIO 2\<close>.
\<close>

lemma low_tvl_ratio_flag:
  "(success point \<and> 0 < tvl_usd reserve \<and> as_float pf (swap_size_usd point) \<noteq> 0
      \<and> (\<not> truthy (price_impact_pct point) \<or> as_number (price_impact_pct point) \<noteq> None)
    \<longrightarrow> (\<exists>flags. identify_risk_flags pf reserve point = Inr flags
          \<and> (\<forall>r. LOW_TVL_RATIO r \<in> set flags \<longleftrightarrow>
                 r = round_float pf (tvl_usd reserve / as_float pf (swap_size_usd point))
                 \<and> r < MIN_TVL_MULTIPLE)))
   \<and> (tvl_usd reserve = 0 \<longrightarrow>
        (\<forall>flags r. identify_risk_flags pf reserve point = Inr flags
            \<longrightarrow> LOW_TVL_RATIO r \<notin> set flags))"
proof (intro conjI impI allI)
  assume a: "success point \<and> 0 < tvl_usd reserve \<and> as_float pf (swap_size_usd point) \<noteq> 0
      \<and> (\<not> truthy (price_impact_pct point) \<or> as_number (price_impact_pct point) \<noteq> None)"
  then obtain fs where fs: "high_impact_flags (price_impact_pct point) = Inr fs"
    using high_impact_typed by blast
  let ?ratio = "round_float pf (tvl_usd reserve / as_float pf (swap_size_usd point))"
  let ?low = "if ?ratio < MIN_TVL_MULTIPLE then [LOW_TVL_RATIO ?ratio] else []"
  have r: "tvl_ratio_flags pf (tvl_usd reserve) (swap_size_usd point) = Inr ?low"
    using a by (simp add: tvl_ratio_flags_Inr)
  have "identify_risk_flags pf reserve point
          = Inr (fs @ concentration_flags (route_concentration point) @ ?low)"
    using a fs r by (simp add: identify_risk_flags_def)
  moreover have "\<forall>r. LOW_TVL_RATIO r \<in> set (fs @ concentration_flags (route_concentration point) @ ?low)
        \<longleftrightarrow> r = ?ratio \<and> r < MIN_TVL_MULTIPLE"
    using high_impact_no_low [OF fs] concentration_no_low by auto
  ultimately show "\<exists>flags. identify_risk_flags pf reserve point = Inr flags
          \<and> (\<forall>r. LOW_TVL_RATIO r \<in> set flags \<longleftrightarrow>
                 r = ?ratio \<and> r < MIN_TVL_MULTIPLE)"
    by blast
next
  fix flags r
  assume z: "tvl_usd reserve = 0" and f: "identify_risk_flags pf reserve point = Inr flags"
  show "LOW_TVL_RATIO r \<notin> set flags"
  proof (cases "success point")
    case False
    with f show ?thesis by (auto simp add: identify_risk_flags_def)
  next
    case True
    with f z obtain fs where fs: "high_impact_flags (price_impact_pct point) = Inr fs"
      and fl: "flags = fs @ concentration_flags (route_concentration point)"
      by (auto simp add: identify_risk_flags_def tvl_ratio_flags_zero split: sum.splits)
    then show ?thesis using high_impact_no_low [OF fs] concentration_no_low by auto
  qed
qed

lemma low_tvl_ratio_flag_example:
  "\<exists>flags. identify_risk_flags binary64_decimal28 (example_reserve 10000000)
              (example_point (PyInt 5000000) (PNum (PyFloat 2)) True) = Inr flags
     \<and> LOW_TVL_RATIO 2 \<in> set flags"
proof -
  let ?r = "example_reserve 10000000"
  let ?p = "example_point (PyInt 5000000) (PNum (PyFloat 2)) True"
  have fl: "round_float binary64_decimal28 5000000 = 5000000"
    by code_simp
  have ratio: "round_float binary64_decimal28 (10000000 / 5000000) = 2"
    by code_simp
  have hyp: "success ?p \<and> 0 < tvl_usd ?r \<and> as_float binary64_decimal28 (swap_size_usd ?p) \<noteq> 0
      \<and> (\<not> truthy (price_impact_pct ?p) \<or> as_number (price_impact_pct ?p) \<noteq> None)"
    by (simp add: example_point_def example_reserve_def fl)
  from low_tvl_ratio_flag [THEN conjunct1, rule_format, OF hyp]
  obtain flags where f: "identify_risk_flags binary64_decimal28 ?r ?p = Inr flags"
    and iff: "\<forall>r. LOW_TVL_RATIO r \<in> set flags \<longleftrightarrow>
                 r = round_float binary64_decimal28 (tvl_usd ?r / as_float binary64_decimal28 (swap_size_usd ?p))
                 \<and> r < MIN_TVL_MULTIPLE"
    by blast
  have "tvl_usd ?r / as_float binary64_decimal28 (swap_size_usd ?p) = 10000000 / 5000000"
    by (simp add: example_point_def example_reserve_def fl)
  with iff ratio have "LOW_TVL_RATIO 2 \<in> set flags"
    by (simp add: MIN_TVL_MULTIPLE_def)
  with f show ?thesis by blast
qed

text \<open>
  C6. At a successful point with swap size \<open>0\<close> and a reserve with positive TVL the
  evaluator returns no flags at all: the division \<open>tvl / swap_size\<close> raises
  \<open>ZeroDivisionError\<close>. The client guards its own division by the token amount of such a
  point (\<open>if swap_size_tokens > 0 else 0.0\<close>); this one is not guarded.
\<close>

theorem zero_swap_size_raises:
  "identify_risk_flags binary64_decimal28 (example_reserve 10000000)
     (example_point (PyInt 0) (PNum (PyFloat 2)) True) = Inl ZeroDivisionError
   \<and> identify_risk_flags binary64_decimal28 (example_reserve 10000000)
     (example_point (PyFloat 0) (PNum (PyFloat 2)) True) = Inl ZeroDivisionError"
  by code_simp

section \<open>Liquidity depth\<close>

lemma quote_output_not_positive:
  "quote_success q \<Longrightarrow> as_number (quote_out_amount q) = Some out \<Longrightarrow> num_value out \<le> 0 \<Longrightarrow>
   quote_output pf q price places tokens = Inr (0, 0)"
  by (simp add: quote_output_def)

lemma quote_output_nonzero:
  "quote_output pf q price places tokens = Inr (out_usd, eff) \<Longrightarrow> out_usd \<noteq> 0 \<Longrightarrow>
   quote_success q \<and> (\<exists>out. as_number (quote_out_amount q) = Some out \<and> 0 < num_value out
      \<and> out_usd = native_to_usd pf out price places)"
  by (auto simp add: quote_output_def Let_def split: if_splits option.splits)

text \<open>
  C10. For a size band whose conversion succeeds and whose quote succeeds with an output
  amount that is not positive, the point has \<open>output_usd = 0\<close> and
  \<open>effective_price = 0\<close> while \<open>success\<close> stays true (and the pacing delay follows). An
  output in USD that is not zero comes from a successful quote with a positive output
  amount, converted by \<open>native_to_usd\<close>.
\<close>

theorem depth_point_without_output:
  assumes conv: "usd_to_native_units pf size_usd price places = Inr n"
    and query: "query_swap_price_impact pf up mint USDC_MINT n s = (q, s1)"
  shows "(quote_success q \<and> (\<exists>out. as_number (quote_out_amount q) = Some out \<and> num_value out \<le> 0)
          \<longrightarrow> (\<exists>pt. analyze_band pf up mint places price out_places out_price size_usd s
                        = (Inr pt, sleep RATE_LIMIT_DELAY s1)
                \<and> output_usd pt = 0 \<and> effective_price pt = 0 \<and> success pt))
       \<and> (\<forall>pt s'. analyze_band pf up mint places price out_places out_price size_usd s = (Inr pt, s')
            \<and> output_usd pt \<noteq> 0
          \<longrightarrow> quote_success q
              \<and> (\<exists>out. as_number (quote_out_amount q) = Some out \<and> 0 < num_value out
                     \<and> output_usd pt = native_to_usd pf out out_price out_places))"
proof (rule conjI)
  show "quote_success q \<and> (\<exists>out. as_number (quote_out_amount q) = Some out \<and> num_value out \<le> 0)
          \<longrightarrow> (\<exists>pt. analyze_band pf up mint places price out_places out_price size_usd s
                        = (Inr pt, sleep RATE_LIMIT_DELAY s1)
                \<and> output_usd pt = 0 \<and> effective_price pt = 0 \<and> success pt)"
  proof (rule impI)
    assume ok: "quote_success q
      \<and> (\<exists>out. as_number (quote_out_amount q) = Some out \<and> num_value out \<le> 0)"
    then have "quote_output pf q out_price out_places (native_to_tokens pf (PyInt n) places)
        = Inr (0, 0)"
      using quote_output_not_positive by blast
    with conv query ok
    show "\<exists>pt. analyze_band pf up mint places price out_places out_price size_usd s
                        = (Inr pt, sleep RATE_LIMIT_DELAY s1)
                \<and> output_usd pt = 0 \<and> effective_price pt = 0 \<and> success pt"
      by (simp add: analyze_band_def Let_def)
  qed
next
  show "\<forall>pt s'. analyze_band pf up mint places price out_places out_price size_usd s = (Inr pt, s')
            \<and> output_usd pt \<noteq> 0
          \<longrightarrow> quote_success q
              \<and> (\<exists>out. as_number (quote_out_amount q) = Some out \<and> 0 < num_value out
                     \<and> output_usd pt = native_to_usd pf out out_price out_places)"
  proof (intro allI impI)
    fix pt s'
    assume a: "analyze_band pf up mint places price out_places out_price size_usd s = (Inr pt, s')
            \<and> output_usd pt \<noteq> 0"
    let ?tokens = "native_to_tokens pf (PyInt n) places"
    from a conv query obtain out_usd eff
      where o: "quote_output pf q out_price out_places ?tokens = Inr (out_usd, eff)"
        and p: "output_usd pt = out_usd"
      by (auto simp add: analyze_band_def Let_def split: sum.splits prod.splits)
    with a quote_output_nonzero [OF o]
    show "quote_success q
              \<and> (\<exists>out. as_number (quote_out_amount q) = Some out \<and> 0 < num_value out
                     \<and> output_usd pt = native_to_usd pf out out_price out_places)"
      by simp
  qed
qed

theorem depth_point_without_output_witness:
  "\<exists>pt s'. analyze_band binary64_decimal28
        (example_upstream [] [Response 200 [] (Inr zero_output_reply)])
        SOL_MINT 9 (PyInt 200) 6 (PyFloat 1) (PyInt 1000000) no_effects = (Inr pt, s')
      \<and> output_usd pt = 0 \<and> effective_price pt = 0 \<and> success pt"
proof -
  let ?up = "example_upstream [] [Response 200 [] (Inr zero_output_reply)]"
  let ?q = "parse_quote_response binary64_decimal28 zero_output_reply"
  let ?s1 = "no_effects\<lparr>jupiter_log := [(SOL_MINT, USDC_MINT, 5000000000000)]\<rparr>"
  have conv: "usd_to_native_units binary64_decimal28 (PyInt 1000000) (PyInt 200) 9
      = Inr 5000000000000"
    by code_simp
  have query: "query_swap_price_impact binary64_decimal28 ?up SOL_MINT USDC_MINT 5000000000000
      no_effects = (?q, ?s1)"
    by (simp add: query_swap_price_impact_def MAX_RETRIES_def query_attempt_def
        example_upstream_def scripted_def no_effects_def upt_rec)
  have ok: "quote_success ?q
      \<and> (\<exists>out. as_number (quote_out_amount ?q) = Some out \<and> num_value out \<le> 0)"
  proof -
    have "quote_success ?q" by code_simp
    moreover have "as_number (quote_out_amount ?q) = Some (PyInt 0)" by code_simp
    ultimately show ?thesis by simp
  qed
  from depth_point_without_output [OF conv query, THEN conjunct1, rule_format, OF ok]
  show ?thesis by blast
qed

section \<open>Parsing a quote\<close>

lemma parse_quote_fields_Inr:
  "parse_quote_fields pf data = Inr q \<Longrightarrow> quote_success q \<and> quote_error q = None"
  by (auto simp add: parse_quote_fields_def Let_def split: pyval.splits sum.splits)

lemma failed_quote_fields [simp]:
  "quote_price_impact (failed_quote msg) = PNone"
  "quote_out_amount (failed_quote msg) = PNum (PyInt 0)"
  "quote_slippage_bps (failed_quote msg) = PNum (PyInt 0)"
  "quote_success (failed_quote msg) = False"
  "quote_error (failed_quote msg) = Some msg"
  by (simp_all add: failed_quote_def)

lemma parse_quote_fields_price_impact:
  "map_of d ''priceImpact'' = None \<Longrightarrow> parse_quote_fields pf (PDict d) = Inr q \<Longrightarrow>
   quote_price_impact q = PNum (PyInt 0)"
  by (auto simp add: parse_quote_fields_def dict_get_def float_if_str_def
      price_impact_percent_def Let_def split: sum.splits)

lemma parse_quote_fields_out_amount:
  "map_of d ''outAmount'' = None \<Longrightarrow> parse_quote_fields pf (PDict d) = Inr q \<Longrightarrow>
   quote_out_amount q = PNum (PyInt 0)"
  by (auto simp add: parse_quote_fields_def dict_get_def int_if_str_def
      Let_def split: sum.splits)

lemma parse_quote_fields_slippage:
  "map_of d ''slippageBps'' = None \<Longrightarrow> parse_quote_fields pf (PDict d) = Inr q \<Longrightarrow>
   quote_slippage_bps q = PNum (PyInt 0)"
  by (auto simp add: parse_quote_fields_def dict_get_def
      Let_def split: sum.splits)

text \<open>
  C2. When a numeric field is absent from the response, the parsed quote holds zero for
  it: \<open>out_amount\<close> and \<open>slippage_bps\<close> are \<open>0\<close> in every case, and \<open>price_impact\<close> is \<open>0\<close>
  whenever the response parses (it is \<open>None\<close> only in the quote of a parse error). At the
  empty response all three are \<open>0\<close>, none is \<open>None\<close>, and the quote is a success.
\<close>

theorem absent_fields_default_to_zero:
  "(map_of d ''priceImpact'' = None \<longrightarrow>
      quote_price_impact (parse_quote_response pf (PDict d))
        = (if quote_success (parse_quote_response pf (PDict d)) then PNum (PyInt 0) else PNone))
   \<and> (map_of d ''outAmount'' = None \<longrightarrow>
      quote_out_amount (parse_quote_response pf (PDict d)) = PNum (PyInt 0))
   \<and> (map_of d ''slippageBps'' = None \<longrightarrow>
      quote_slippage_bps (parse_quote_response pf (PDict d)) = PNum (PyInt 0))"
proof (cases "parse_quote_fields pf (PDict d)")
  case (Inl e)
  then show ?thesis by (simp add: parse_quote_response_def)
next
  case (Inr q)
  then show ?thesis
    using parse_quote_fields_Inr [OF Inr] parse_quote_fields_price_impact [OF _ Inr]
      parse_quote_fields_out_amount [OF _ Inr] parse_quote_fields_slippage [OF _ Inr]
    by (simp add: parse_quote_response_def)
qed

theorem absent_fields_default_to_zero_witness:
  "quote_price_impact (parse_quote_response binary64_decimal28 (PDict router_only_reply))
     = (if quote_success (parse_quote_response binary64_decimal28 (PDict router_only_reply))
        then PNum (PyInt 0) else PNone)
   \<and> quote_out_amount (parse_quote_response binary64_decimal28 (PDict router_only_reply))
     = PNum (PyInt 0)
   \<and> quote_slippage_bps (parse_quote_response binary64_decimal28 (PDict router_only_reply))
     = PNum (PyInt 0)"
proof -
  have 1: "map_of router_only_reply ''priceImpact'' = None"
    and 2: "map_of router_only_reply ''outAmount'' = None"
    and 3: "map_of router_only_reply ''slippageBps'' = None"
    by (simp_all add: router_only_reply_def)
  from absent_fields_default_to_zero [of router_only_reply binary64_decimal28] 1 2 3
  show ?thesis by blast
qed

theorem absent_fields_counterexample:
  "quote_success (parse_quote_response binary64_decimal28 (PDict []))
   \<and> quote_price_impact (parse_quote_response binary64_decimal28 (PDict [])) = PNum (PyInt 0)
   \<and> quote_out_amount (parse_quote_response binary64_decimal28 (PDict [])) = PNum (PyInt 0)
   \<and> quote_slippage_bps (parse_quote_response binary64_decimal28 (PDict [])) = PNum (PyInt 0)
   \<and> quote_price_impact (parse_quote_response binary64_decimal28 (PDict [])) \<noteq> PNone
   \<and> quote_out_amount (parse_quote_response binary64_decimal28 (PDict [])) \<noteq> PNone
   \<and> quote_slippage_bps (parse_quote_response binary64_decimal28 (PDict [])) \<noteq> PNone"
  by code_simp

section \<open>The retry loop of a quote\<close>




lemma three_attempts: "[0..<MAX_RETRIES] = [0, 1, 2]"
  by (simp add: MAX_RETRIES_def upt_rec)







section \<open>The reserve fetch and the run\<close>

lemma fetch_attempt_exception:
  "fetch_exception outcome = Some msg \<Longrightarrow> fetch_attempt parse attempt outcome = fetch_failed attempt msg"
  by (auto simp add: fetch_exception_def fetch_attempt_def
      split: http_outcome.splits if_splits sum.splits)

lemma reserve_fetch_exhausted:
  assumes k0: "kamino_get up (length (kamino_log s)) market = o0"
    and k1: "kamino_get up (Suc (length (kamino_log s))) market = o1"
    and k2: "kamino_get up (Suc (Suc (length (kamino_log s)))) market = o2"
    and f0: "fetch_exception o0 = Some m0"
    and f1: "fetch_exception o1 = Some m1"
    and f2: "fetch_exception o2 = Some m2"
  shows "fetch_market_reserves parse up market s
           = (Inl (RequestException m2),
              s\<lparr>kamino_log := kamino_log s @ replicate 3 market,
                sleep_log := sleep_log s @ [1, 2]\<rparr>)"
proof -
  have "fetch_attempt parse 0 o0 = Inr 1" "fetch_attempt parse 1 o1 = Inr 2"
    "fetch_attempt parse 2 o2 = Inl (Inl (RequestException m2))"
    using f0 f1 f2
    by (simp_all add: fetch_attempt_exception fetch_failed_def MAX_RETRIES_def
        RETRY_BACKOFF_FACTOR_def)
  then show ?thesis
    using k0 k1 k2
    by (simp add: fetch_market_reserves_def three_attempts Let_def sleep_def numeral_3_eq_3)
qed

lemma report_stops_at_failed_fetch:
  assumes "fetch_market_reserves parse up market s = (Inl e, s1)"
  shows "generate_liquidity_report pf parse up market sizes assets s = (Inl e, s1)"
  using assms by (simp add: generate_liquidity_report_def)

lemma fetch_attempts_no_quotes:
  "fetch_attempts parse up market attempts s = (r, s') \<Longrightarrow> jupiter_log s' = jupiter_log s"
proof (induction attempts arbitrary: s)
  case Nil
  then show ?case by simp
next
  case (Cons attempt rest)
  then show ?case
    by (auto simp add: Let_def sleep_def split: sum.splits)
qed

text \<open>
  When the three GETs of the reserve fetch all end in a \<open>RequestException\<close>, the fetch
  raises the last one (it does not return the empty list), after sleeps of 1 and 2
  seconds, and the report raises it too without a single quote request.
\<close>

lemma reserve_fetch_failure_is_fatal:
  assumes k0: "kamino_get up (length (kamino_log s)) market = o0"
    and k1: "kamino_get up (Suc (length (kamino_log s))) market = o1"
    and k2: "kamino_get up (Suc (Suc (length (kamino_log s)))) market = o2"
    and f0: "fetch_exception o0 = Some m0"
    and f1: "fetch_exception o1 = Some m1"
    and f2: "fetch_exception o2 = Some m2"
  shows "\<exists>s'. fetch_market_reserves parse up market s = (Inl (RequestException m2), s')
           \<and> generate_liquidity_report pf parse up market sizes assets s
               = (Inl (RequestException m2), s')
           \<and> kamino_log s' = kamino_log s @ replicate 3 market
           \<and> jupiter_log s' = jupiter_log s"
  using reserve_fetch_exhausted [OF assms, of parse]
  by (simp add: generate_liquidity_report_def)

text \<open>
  C4. The reserve fetch is not the only thing that halts a run. Here the fetch succeeds
  with one SOL reserve and the aggregator answers the quote with status 200 and the body
  \<open>{"outAmount": null}\<close>: the body parses to a successful quote whose \<open>out_amount\<close> is
  \<open>None\<close>, the comparison \<open>quote["out_amount"] > 0\<close> raises \<open>TypeError\<close>, nothing catches
  it, and the report ends with that exception.
\<close>

theorem malformed_quote_halts_run:
  "fst (fetch_market_reserves example_parse null_output_upstream MAIN_MARKET_PUBKEY no_effects)
     = Inr [example_reserve 50000000]
   \<and> quote_success (parse_quote_response binary64_decimal28 (PDict [(''outAmount'', PNone)]))
   \<and> fst (generate_liquidity_report binary64_decimal28 example_parse null_output_upstream
            MAIN_MARKET_PUBKEY [PyInt 1000000] [''SOL''] no_effects) = Inl TypeError"
  by code_simp

section \<open>Route summary\<close>

lemma route_step_label_labelled [simp]: "route_step_label (labelled_step l) = Some (PStr l)"
  by (simp add: route_step_label_def route_swap_info_def labelled_step_def dict_get_def)

lemma str_items_map_PStr [simp]: "str_items (map PStr ls) = Some ls"
  by (induction ls) simp_all







section \<open>Route concentration\<close>








section \<open>Unit conversion: the round trip\<close>

lemma relative_bounds:
  fixes x y r :: rat
  assumes "\<bar>y - x\<bar> \<le> r * x"
  shows "(1 - r) * x \<le> y" and "y \<le> (1 + r) * x"
  using assms by (simp_all add: abs_le_iff algebra_simps)

lemma round_trip_chain:
  fixes a p u v D A P q1 q2 t F r :: rat and n :: int
  assumes pos: "0 < a" "0 < p" "0 \<le> u" "u < 1" "0 \<le> v" "v < 1" "0 < D"
    and rA: "\<bar>A - a\<bar> \<le> u * a"
    and rP: "\<bar>P - p\<bar> \<le> u * p"
    and rF: "\<bar>F - p\<bar> \<le> u * p"
    and r1: "\<bar>q1 - A / P\<bar> \<le> v * (A / P)"
    and r2: "\<bar>q2 - q1 * D\<bar> \<le> v * (q1 * D)"
    and n: "n = to_integral_round_down q2"
    and rt: "\<bar>t - of_int n / D\<bar> \<le> u * (of_int n / D)"
    and rr: "\<bar>r - t * F\<bar> \<le> u * (t * F)"
  shows "r \<le> a * ((1 + u) ^ 4 * (1 + v) ^ 2 / (1 - u))"
    and "(1 - u) ^ 3 * ((1 - v) ^ 2 * (1 - u) / (1 + u) * a - p / D) \<le> r"
proof -
  note A = relative_bounds [OF rA] and P = relative_bounds [OF rP] and F = relative_bounds [OF rF]
  have u1: "0 < 1 - u" "0 < 1 + u" "0 < 1 - v" "0 < 1 + v" using pos by simp_all
  have A0: "0 \<le> A" using A(1) u1 pos by (meson less_eq_rat_def mult_nonneg_nonneg order_trans) 
  have P0: "0 < P" using P(1) u1 pos by (meson less_le_trans mult_pos_pos)
  have F0: "0 < F" using F(1) u1 pos by (meson less_le_trans mult_pos_pos)
  define x1 where "x1 = A / P"
  define y1 :: rat where "y1 = of_int n / D"
  have x1_0: "0 \<le> x1" using A0 P0 by (simp add: x1_def)
  have x1_up: "x1 \<le> (1 + u) * a / ((1 - u) * p)"
    unfolding x1_def using A(2) P(1) A0 P0 u1 pos by (intro frac_le) simp_all
  have x1_lo: "(1 - u) * a / ((1 + u) * p) \<le> x1"
    unfolding x1_def using A(1) P(2) A0 P0 u1 pos by (intro frac_le) simp_all
  note Q1 = relative_bounds [OF r1 [folded x1_def]]
  have q1_0: "0 \<le> q1" using Q1(1) x1_0 u1 by (meson less_eq_rat_def mult_nonneg_nonneg order_trans)
  note Q2 = relative_bounds [OF r2]
  have x2_0: "0 \<le> q1 * D" using q1_0 pos by simp
  have q2_0: "0 \<le> q2" using Q2(1) x2_0 u1 by (meson less_eq_rat_def mult_nonneg_nonneg order_trans)
  have n_floor: "n = \<lfloor>q2\<rfloor>" using q2_0 n by (simp add: to_integral_round_down_def)
  have n0: "0 \<le> n" using q2_0 n_floor by simp
  have n_up: "of_int n \<le> q2" using n_floor by simp
  have n_lo: "q2 - 1 < of_int n" using n_floor floor_correct [of q2] by simp
  have y1_0: "0 \<le> y1" using n0 pos by (simp add: y1_def)
  note T = relative_bounds [OF rt [folded y1_def]]
  have t0: "0 \<le> t" using T(1) y1_0 u1 by (meson less_eq_rat_def mult_nonneg_nonneg order_trans)
  have y2_0: "0 \<le> t * F" using t0 F0 by simp
  note R = relative_bounds [OF rr]
  \<comment> \<open>upper bound\<close>
  have "q2 \<le> (1 + v) * ((1 + v) * x1 * D)"
    using Q2(2) Q1(2) u1 pos by (meson less_eq_rat_def mult_left_mono mult_right_mono order_trans)
  then have q2_up: "q2 \<le> (1 + v) ^ 2 * x1 * D"
    by (simp add: power2_eq_square algebra_simps)
  have y1_up: "y1 \<le> (1 + v) ^ 2 * x1"
  proof -
    have "y1 \<le> q2 / D" using n_up pos by (simp add: y1_def divide_right_mono)
    also have "\<dots> \<le> ((1 + v) ^ 2 * x1 * D) / D"
      by (rule divide_right_mono [OF q2_up]) (use pos in simp)
    also have "\<dots> = (1 + v) ^ 2 * x1" using pos by simp
    finally show ?thesis .
  qed
  have t_up: "t \<le> (1 + u) * ((1 + v) ^ 2 * x1)"
    using T(2) y1_up u1 by (meson less_eq_rat_def mult_left_mono order_trans)
  have tF_up: "t * F \<le> ((1 + u) * ((1 + v) ^ 2 * x1)) * ((1 + u) * p)"
    using t_up F(2) t0 F0 u1 pos x1_0 by (intro mult_mono) simp_all
  have r_up: "r \<le> (1 + u) * (((1 + u) * ((1 + v) ^ 2 * x1)) * ((1 + u) * p))"
    using R(2) tF_up u1 by (meson less_eq_rat_def mult_left_mono order_trans)
  have "(1 + u) * (((1 + u) * ((1 + v) ^ 2 * x1)) * ((1 + u) * p))
      = ((1 + u) ^ 3 * (1 + v) ^ 2 * p) * x1"
    by (simp add: power3_eq_cube power2_eq_square algebra_simps)
  also have "\<dots> \<le> ((1 + u) ^ 3 * (1 + v) ^ 2 * p) * ((1 + u) * a / ((1 - u) * p))"
    using x1_up u1 pos by (intro mult_left_mono) simp_all
  also have "\<dots> = a * ((1 + u) ^ 4 * (1 + v) ^ 2 / (1 - u))"
    using pos u1 by (simp add: power4_eq_xxxx power3_eq_cube power2_eq_square field_simps)
  finally show "r \<le> a * ((1 + u) ^ 4 * (1 + v) ^ 2 / (1 - u))"
    using r_up by simp
  \<comment> \<open>lower bound\<close>
  have "(1 - v) * ((1 - v) * x1 * D) \<le> q2"
    using Q2(1) Q1(1) u1 pos by (meson less_eq_rat_def mult_left_mono mult_right_mono order_trans)
  then have q2_lo: "(1 - v) ^ 2 * x1 * D \<le> q2"
    by (simp add: power2_eq_square algebra_simps)
  have y1_lo: "(1 - v) ^ 2 * x1 - 1 / D \<le> y1"
  proof -
    have "(1 - v) ^ 2 * x1 - 1 / D = ((1 - v) ^ 2 * x1 * D - 1) / D"
      using pos by (simp add: field_simps)
    also have "\<dots> \<le> (q2 - 1) / D"
      by (rule divide_right_mono) (use q2_lo pos in simp_all)
    also have "\<dots> \<le> y1" using n_lo pos by (simp add: y1_def divide_right_mono)
    finally show ?thesis .
  qed
  define c where "c = (1 - v) ^ 2 * (1 - u) / (1 + u)"
  define k where "k = (1 - u) ^ 3"
  have k0: "0 \<le> k" using u1 by (simp add: k_def)
  have c_eq: "(1 - v) ^ 2 * ((1 - u) * a / ((1 + u) * p)) = c * a / p"
    by (simp add: c_def)
  have m_lo: "c * a / p - 1 / D \<le> y1"
  proof -
    have "(1 - v) ^ 2 * ((1 - u) * a / ((1 + u) * p)) \<le> (1 - v) ^ 2 * x1"
      using x1_lo by (intro mult_left_mono) simp_all
    with y1_lo show ?thesis by (simp only: c_eq)
  qed
  have r_lo: "(1 - u) * ((1 - u) * y1 * ((1 - u) * p)) \<le> r"
  proof -
    have "0 \<le> (1 - u) * p" using u1 pos by simp
    then have "(1 - u) * y1 * ((1 - u) * p) \<le> t * F"
      by (intro mult_mono T(1) F(1) t0)
    then have "(1 - u) * ((1 - u) * y1 * ((1 - u) * p)) \<le> (1 - u) * (t * F)"
      using u1 by (intro mult_left_mono) simp_all
    with R(1) show ?thesis by simp
  qed
  have "k * (c * a - p / D) = (k * p) * (c * a / p - 1 / D)"
    using pos by (simp add: field_simps)
  also have "\<dots> \<le> (k * p) * y1"
    using m_lo k0 pos by (intro mult_left_mono) simp_all
  also have "\<dots> = (1 - u) * ((1 - u) * y1 * ((1 - u) * p))"
    by (simp add: k_def power3_eq_cube algebra_simps)
  finally have "k * (c * a - p / D) \<le> r"
    using r_lo by simp
  then show "(1 - u) ^ 3 * ((1 - v) ^ 2 * (1 - u) / (1 + u) * a - p / D) \<le> r"
    by (simp only: k_def c_def)
qed

lemma roundoff_factors:
  "(1 + binary64_unit_roundoff) ^ 4 * (1 + decimal28_unit_roundoff) ^ 2
      / (1 - binary64_unit_roundoff) \<le> 1 + 6 / 10 ^ 16"
  "1 - 6 / 10 ^ 16 \<le> (1 - binary64_unit_roundoff) ^ 4 * (1 - decimal28_unit_roundoff) ^ 2
      / (1 + binary64_unit_roundoff)"
  unfolding binary64_unit_roundoff_def decimal28_unit_roundoff_def
  by (simp_all add: field_simps)

text \<open>
  C1. For a positive amount and a positive price, when every operation on the way rounds
  correctly (the two readings \<open>Decimal(str(x))\<close>, the float of the price and the two
  float operations of \<open>native_to_usd\<close> within \<open>2^-53\<close>, the two \<open>Decimal\<close> operations within
  \<open>5 * 10^-28\<close>), the round trip from USD to native units and back is within
  \<open>10^-decimals * price + 6 * 10^-16 * amount\<close> of the amount: one unit of least
  precision and the rounding of the arithmetic. It is not within one unit of least
  precision alone: 7 USD at the price 25 with 18 decimals is 280000000000000000 native
  units, which convert back to \<open>7 + 2^-50\<close> USD, further from 7 than \<open>25 * 10^-18\<close>.
\<close>

theorem unit_round_trip_rounding:
  assumes pos: "0 < num_value amount" "0 < num_value price"
    and conv: "usd_to_native_units pf amount price places = Inr n"
    and read_amount:
      "rounds_within binary64_unit_roundoff (num_value amount) (as_decimal pf amount)"
    and read_price:
      "rounds_within binary64_unit_roundoff (num_value price) (as_decimal pf price)"
    and float_price:
      "rounds_within binary64_unit_roundoff (num_value price) (as_float pf price)"
    and quotient:
      "rounds_within decimal28_unit_roundoff (as_decimal pf amount / as_decimal pf price)
         (round_decimal pf (as_decimal pf amount / as_decimal pf price))"
    and scaled:
      "rounds_within decimal28_unit_roundoff
         (round_decimal pf (as_decimal pf amount / as_decimal pf price) * 10 ^ places)
         (round_decimal pf
            (round_decimal pf (as_decimal pf amount / as_decimal pf price) * 10 ^ places))"
    and tokens:
      "rounds_within binary64_unit_roundoff (of_int n / 10 ^ places)
         (round_float pf (of_int n / 10 ^ places))"
    and product:
      "rounds_within binary64_unit_roundoff
         (round_float pf (of_int n / 10 ^ places) * as_float pf price)
         (round_float pf (round_float pf (of_int n / 10 ^ places) * as_float pf price))"
  shows "\<bar>native_to_usd pf (PyInt n) price places - num_value amount\<bar>
           \<le> num_value price / 10 ^ places + 6 / 10 ^ 16 * num_value amount"
proof -
  define a where "a = num_value amount"
  define p where "p = num_value price"
  define D :: rat where "D = 10 ^ places"
  define u where "u = binary64_unit_roundoff"
  define v where "v = decimal28_unit_roundoff"
  define q1 where "q1 = round_decimal pf (as_decimal pf amount / as_decimal pf price)"
  define q2 where "q2 = round_decimal pf (q1 * D)"
  define t where "t = round_float pf (of_int n / D)"
  define r where "r = round_float pf (t * as_float pf price)"
  have uv: "0 \<le> u" "u < 1" "0 \<le> v" "v < 1"
    by (simp_all add: u_def v_def binary64_unit_roundoff_def decimal28_unit_roundoff_def)
  have D0: "0 < D" by (simp add: D_def)
  have n: "n = to_integral_round_down q2"
    using conv pos by (simp add: usd_to_native_units_def Let_def q2_def q1_def D_def)
  have r_eq: "native_to_usd pf (PyInt n) price places = r"
    by (simp add: native_to_usd_def Let_def r_def t_def D_def)
  note chain = round_trip_chain [where a = a and p = p and u = u and v = v and D = D
      and A = "as_decimal pf amount" and P = "as_decimal pf price" and F = "as_float pf price"
      and ?q1.0 = q1 and ?q2.0 = q2 and n = n and t = t and r = r]
  have hyps: "\<bar>as_decimal pf amount - a\<bar> \<le> u * a"
    "\<bar>as_decimal pf price - p\<bar> \<le> u * p"
    "\<bar>as_float pf price - p\<bar> \<le> u * p"
    "\<bar>q1 - as_decimal pf amount / as_decimal pf price\<bar>
       \<le> v * (as_decimal pf amount / as_decimal pf price)"
    "\<bar>q2 - q1 * D\<bar> \<le> v * (q1 * D)"
    "\<bar>t - of_int n / D\<bar> \<le> u * (of_int n / D)"
    "\<bar>r - t * as_float pf price\<bar> \<le> u * (t * as_float pf price)"
    using read_amount read_price float_price quotient scaled tokens product
    by (simp_all add: rounds_within_def a_def p_def u_def v_def q1_def q2_def t_def r_def D_def)
  have a0: "0 < a" and p0: "0 < p" using pos by (simp_all add: a_def p_def)
  have up: "r \<le> a * ((1 + u) ^ 4 * (1 + v) ^ 2 / (1 - u))"
    by (rule chain(1) [OF a0 p0 uv D0 hyps(1-5) n hyps(6,7)])
  have lo: "(1 - u) ^ 3 * ((1 - v) ^ 2 * (1 - u) / (1 + u) * a - p / D) \<le> r"
    by (rule chain(2) [OF a0 p0 uv D0 hyps(1-5) n hyps(6,7)])
  define KU where "KU = (1 + u) ^ 4 * (1 + v) ^ 2 / (1 - u)"
  define KL where "KL = (1 - u) ^ 4 * (1 - v) ^ 2 / (1 + u)"
  define e :: rat where "e = 6 / 10 ^ 16"
  have KU: "KU \<le> 1 + e" and KL: "1 - e \<le> KL"
    using roundoff_factors by (simp_all only: KU_def KL_def e_def u_def v_def)
  have "a * KU \<le> a * (1 + e)"
    using KU a0 by (intro mult_left_mono) simp_all
  with up have "r \<le> a * (1 + e)"
    by (simp only: KU_def)
  then have upper: "r - a \<le> e * a"
    by (simp add: algebra_simps)
  define k where "k = (1 - u) ^ 3"
  have k: "0 \<le> k" "k \<le> 1"
    using uv by (simp_all add: k_def power_le_one)
  have "(1 - u) ^ 3 * ((1 - v) ^ 2 * (1 - u) / (1 + u) * a - p / D) = KL * a - k * (p / D)"
    by (simp add: KL_def k_def power4_eq_xxxx power3_eq_cube algebra_simps)
  with lo have lo': "KL * a - k * (p / D) \<le> r"
    by simp
  have "(1 - e) * a \<le> KL * a"
    using KL a0 by (intro mult_right_mono) simp_all
  then have 1: "a - e * a \<le> KL * a"
    by (simp add: algebra_simps)
  have "k * (p / D) \<le> 1 * (p / D)"
    using k p0 D0 by (intro mult_right_mono) simp_all
  then have 2: "k * (p / D) \<le> p / D"
    by simp
  from lo' 1 2 have lower: "a - r \<le> p / D + e * a"
    by linarith
  have "0 \<le> p / D" using p0 D0 by simp
  with upper lower have "\<bar>r - a\<bar> \<le> p / D + e * a"
    by (simp add: abs_le_iff)
  then show ?thesis
    by (simp only: r_eq a_def p_def D_def e_def)
qed

theorem unit_round_trip_rounding_witness:
  "\<bar>native_to_usd binary64_decimal28 (PyInt 280000000000000000) (PyInt 25) 18 - 7\<bar>
     \<le> 25 / 10 ^ 18 + 6 / 10 ^ 16 * 7"
proof -
  let ?pf = binary64_decimal28
  have pos: "0 < num_value (PyInt 7)" "0 < num_value (PyInt 25)"
    by simp_all
  have conv: "usd_to_native_units ?pf (PyInt 7) (PyInt 25) 18 = Inr 280000000000000000"
    by code_simp
  have read_amount: "rounds_within binary64_unit_roundoff (num_value (PyInt 7))
      (as_decimal ?pf (PyInt 7))"
    by (simp add: rounds_within_def binary64_unit_roundoff_def)
  have read_price: "rounds_within binary64_unit_roundoff (num_value (PyInt 25))
      (as_decimal ?pf (PyInt 25))"
    by (simp add: rounds_within_def binary64_unit_roundoff_def)
  have float_price: "rounds_within binary64_unit_roundoff (num_value (PyInt 25))
      (as_float ?pf (PyInt 25))"
    by code_simp
  have quotient: "rounds_within decimal28_unit_roundoff
      (as_decimal ?pf (PyInt 7) / as_decimal ?pf (PyInt 25))
      (round_decimal ?pf (as_decimal ?pf (PyInt 7) / as_decimal ?pf (PyInt 25)))"
    by code_simp
  have scaled: "rounds_within decimal28_unit_roundoff
      (round_decimal ?pf (as_decimal ?pf (PyInt 7) / as_decimal ?pf (PyInt 25)) * 10 ^ 18)
      (round_decimal ?pf
         (round_decimal ?pf (as_decimal ?pf (PyInt 7) / as_decimal ?pf (PyInt 25)) * 10 ^ 18))"
    by code_simp
  have tokens: "rounds_within binary64_unit_roundoff (of_int 280000000000000000 / 10 ^ 18)
      (round_float ?pf (of_int 280000000000000000 / 10 ^ 18))"
    by code_simp
  have product: "rounds_within binary64_unit_roundoff
      (round_float ?pf (of_int 280000000000000000 / 10 ^ 18) * as_float ?pf (PyInt 25))
      (round_float ?pf
         (round_float ?pf (of_int 280000000000000000 / 10 ^ 18) * as_float ?pf (PyInt 25)))"
    by code_simp
  from unit_round_trip_rounding [OF pos conv read_amount read_price float_price quotient
      scaled tokens product]
  show ?thesis by simp
qed

theorem unit_round_trip_counterexample:
  "usd_to_native_units binary64_decimal28 (PyInt 7) (PyInt 25) 18 = Inr 280000000000000000
   \<and> native_to_usd binary64_decimal28 (PyInt 280000000000000000) (PyInt 25) 18 = 7 + 1 / 2 ^ 50
   \<and> \<not> \<bar>native_to_usd binary64_decimal28 (PyInt 280000000000000000) (PyInt 25) 18
           - num_value (PyInt 7)\<bar> \<le> num_value (PyInt 25) / 10 ^ 18"
proof -
  have 1: "usd_to_native_units binary64_decimal28 (PyInt 7) (PyInt 25) 18
      = Inr 280000000000000000"
    by code_simp
  have 2: "native_to_usd binary64_decimal28 (PyInt 280000000000000000) (PyInt 25) 18
      = 7 + 1 / 2 ^ 50"
    by code_simp
  have 3: "\<not> \<bar>(7 + 1 / 2 ^ 50) - num_value (PyInt 7)\<bar> \<le> num_value (PyInt 25) / 10 ^ 18"
    by simp
  from 1 2 3 show ?thesis by (simp only: simp_thms)
qed

end
